theory Spec2Isabelle
  imports Main "HOL-Library.Sublist"
begin

section \<open>JavaScript strings\<close>

text \<open>
  A JavaScript string is modelled as a \<^typ>\<open>string\<close> whose characters are the code
  units \<open>0x00 .. 0xFF\<close> (the Latin-1 range). The functions below are the
  \<open>String.prototype\<close> methods the service uses, restricted to that range.
\<close>

definition NL :: char where
  "NL = CHR 0x0A"

text \<open>White space as \<open>trim\<close> and the regular expression class \<open>\s\<close> see it.\<close>

definition is_ws :: "char \<Rightarrow> bool" where
  "is_ws c = (c \<in> set [CHR 0x09, CHR 0x0A, CHR 0x0B, CHR 0x0C, CHR 0x0D, CHR 0x20, CHR 0xA0])"

text \<open>The regular expression classes \<open>\w\<close> and \<open>\d\<close>.\<close>

definition is_digit :: "char \<Rightarrow> bool" where
  "is_digit c = (c \<in> set ''0123456789'')"

definition is_word :: "char \<Rightarrow> bool" where
  "is_word c = (c \<in> set ''abcdefghijklmnopqrstuvwxyzABCDEFGHIJKLMNOPQRSTUVWXYZ0123456789_'')"

definition lower_table :: "(char \<times> char) list" where
  "lower_table =
     zip ''ABCDEFGHIJKLMNOPQRSTUVWXYZ'' ''abcdefghijklmnopqrstuvwxyz'' @
     zip [CHR 0xC0, CHR 0xC1, CHR 0xC2, CHR 0xC3, CHR 0xC4, CHR 0xC5, CHR 0xC6, CHR 0xC7,
          CHR 0xC8, CHR 0xC9, CHR 0xCA, CHR 0xCB, CHR 0xCC, CHR 0xCD, CHR 0xCE, CHR 0xCF,
          CHR 0xD0, CHR 0xD1, CHR 0xD2, CHR 0xD3, CHR 0xD4, CHR 0xD5, CHR 0xD6,
          CHR 0xD8, CHR 0xD9, CHR 0xDA, CHR 0xDB, CHR 0xDC, CHR 0xDD, CHR 0xDE]
         [CHR 0xE0, CHR 0xE1, CHR 0xE2, CHR 0xE3, CHR 0xE4, CHR 0xE5, CHR 0xE6, CHR 0xE7,
          CHR 0xE8, CHR 0xE9, CHR 0xEA, CHR 0xEB, CHR 0xEC, CHR 0xED, CHR 0xEE, CHR 0xEF,
          CHR 0xF0, CHR 0xF1, CHR 0xF2, CHR 0xF3, CHR 0xF4, CHR 0xF5, CHR 0xF6,
          CHR 0xF8, CHR 0xF9, CHR 0xFA, CHR 0xFB, CHR 0xFC, CHR 0xFD, CHR 0xFE]"

definition lower_char :: "char \<Rightarrow> char" where
  "lower_char c = (case map_of lower_table c of Some d \<Rightarrow> d | None \<Rightarrow> c)"

definition toLowerCase :: "string \<Rightarrow> string" where
  "toLowerCase s = map lower_char s"

definition trim :: "string \<Rightarrow> string" where
  "trim s = rev (dropWhile is_ws (rev (dropWhile is_ws s)))"

fun startsWith :: "string \<Rightarrow> string \<Rightarrow> bool" where
  "startsWith s [] = True"
| "startsWith [] (p # ps) = False"
| "startsWith (c # cs) (p # ps) = (c = p \<and> startsWith cs ps)"

text \<open>\<open>s.includes(t)\<close>: \<open>t\<close> occurs in \<open>s\<close> as a contiguous substring.\<close>

fun str_includes :: "string \<Rightarrow> string \<Rightarrow> bool" where
  "str_includes [] t = (t = [])"
| "str_includes (c # cs) t = (startsWith (c # cs) t \<or> str_includes cs t)"

text \<open>\<open>s.slice(n)\<close> for a non-negative \<open>n\<close>.\<close>

definition slice_from :: "nat \<Rightarrow> string \<Rightarrow> string" where
  "slice_from n s = drop n s"

text \<open>
  \<open>s.split(sep)\<close> for a one-character separator: the result is never empty, and
  \<open>''''.split(sep)\<close> is the list holding the empty string.
\<close>

fun split_on :: "char \<Rightarrow> string \<Rightarrow> string list" where
  "split_on sep [] = [[]]"
| "split_on sep (c # cs) =
     (if c = sep then [] # split_on sep cs
      else (case split_on sep cs of
              [] \<Rightarrow> [[c]]
            | w # ws \<Rightarrow> (c # w) # ws))"

text \<open>\<open>parts.join(sep)\<close>.\<close>

fun join :: "string \<Rightarrow> string list \<Rightarrow> string" where
  "join sep [] = []"
| "join sep [x] = x"
| "join sep (x # y # ys) = x @ sep @ join sep (y # ys)"

text \<open>\<open>xs.slice(i, j)\<close> on an array, for \<open>0 \<le> i \<le> j\<close>.\<close>

definition slice_arr :: "nat \<Rightarrow> nat \<Rightarrow> 'a list \<Rightarrow> 'a list" where
  "slice_arr i j xs = take (j - i) (drop i xs)"

text \<open>Decimal rendering of a non-negative integer, as a template literal does it.\<close>

definition digit_char :: "nat \<Rightarrow> char" where
  "digit_char d = ''0123456789'' ! d"

fun show_nat :: "nat \<Rightarrow> string" where
  "show_nat n = (if n < 10 then [digit_char n] else show_nat (n div 10) @ [digit_char (n mod 10)])"

section \<open>Heuristic code inspection\<close>

subsection \<open>calculateCodeComplexity\<close>

text \<open>The condition of the \<open>if\<close> inside the loop, on the trimmed line.\<close>

definition branching :: "string \<Rightarrow> bool" where
  "branching trimmed =
     (str_includes trimmed ''if'' \<or>
      str_includes trimmed ''else'' \<or>
      str_includes trimmed ''for'' \<or>
      str_includes trimmed ''while'' \<or>
      str_includes trimmed ''switch'' \<or>
      str_includes trimmed ''catch'' \<or>
      str_includes trimmed ''&&'' \<or>
      str_includes trimmed ''||'')"

text \<open>One iteration of \<open>for (const line of lines)\<close>, on the counter \<open>complexity\<close>.\<close>

definition complexity_step :: "nat \<Rightarrow> string \<Rightarrow> nat" where
  "complexity_step complexity line =
     (let trimmed = trim line in
      if branching trimmed then complexity + 1 else complexity)"

fun complexity_loop :: "nat \<Rightarrow> string list \<Rightarrow> nat" where
  "complexity_loop complexity [] = complexity"
| "complexity_loop complexity (line # rest) =
     complexity_loop (complexity_step complexity line) rest"

definition calculateCodeComplexity :: "string \<Rightarrow> nat" where
  "calculateCodeComplexity content = complexity_loop 1 (split_on NL content)"

subsection \<open>Regular expressions\<close>

text \<open>
  The regular expressions of the source are matched by hand-written functions. Each
  quantifier in them is followed by something its own class excludes (\<open>\s+\<close> by a
  letter, a quote, a digit or a word character; \<open>\w+\<close> by white space or \<open>=\<close>;
  \<open>[^'"]+\<close> by a quote) or ends the expression, so a match exists exactly when
  the quantifier takes the longest run, and backtracking finds no other. The one
  exception, the last \<open>\s+\<close> of the \<open>@edit\<close> expression, is treated where it occurs.
\<close>

text \<open>A literal at the head of the subject: the rest of the subject after it.\<close>

definition literal :: "string \<Rightarrow> string \<Rightarrow> string option" where
  "literal p s = (if startsWith s p then Some (drop (length p) s) else None)"

text \<open>\<open>\s+\<close> at the head of the subject: the rest after the whole run of white space.\<close>

definition ws_plus :: "string \<Rightarrow> string option" where
  "ws_plus s = (case s of [] \<Rightarrow> None
                | c # cs \<Rightarrow> if is_ws c then Some (dropWhile is_ws cs) else None)"

text \<open>\<open>\s*\<close> at the head of the subject.\<close>

definition ws_star :: "string \<Rightarrow> string" where
  "ws_star s = dropWhile is_ws s"

text \<open>
  An unanchored match: the matcher is tried at every position from the left, as
  \<open>String.prototype.match\<close> does, and the leftmost success is the result.
\<close>

fun leftmost :: "(string \<Rightarrow> 'a option) \<Rightarrow> string \<Rightarrow> 'a option" where
  "leftmost m [] = m []"
| "leftmost m (c # cs) = (case m (c # cs) of Some r \<Rightarrow> Some r | None \<Rightarrow> leftmost m cs)"

text \<open>\<open>line.match(/\w+/)?.[0]\<close>: the first word token of the line.\<close>

definition first_word :: "string \<Rightarrow> string option" where
  "first_word line =
     (let r = dropWhile (\<lambda>c. \<not> is_word c) line in
      if r = [] then None else Some (takeWhile is_word r))"

text \<open>\<open>line.match(/\w+/)?.[0] || 'anonymous'\<close>\<close>

definition token_name :: "string \<Rightarrow> string" where
  "token_name line = (case first_word line of Some w \<Rightarrow> w | None \<Rightarrow> ''anonymous'')"

text \<open>\<open>function\s+\w+\<close> at the head of the subject.\<close>

definition function_keyword :: "string \<Rightarrow> bool" where
  "function_keyword s =
     (case literal ''function'' s of None \<Rightarrow> False
      | Some r \<Rightarrow> (case ws_plus r of None \<Rightarrow> False
                  | Some r' \<Rightarrow> (case r' of [] \<Rightarrow> False | c # cs \<Rightarrow> is_word c)))"

text \<open>\<open>\w+\s*=\s*function\<close> at the head of the subject.\<close>

definition function_assignment :: "string \<Rightarrow> bool" where
  "function_assignment s =
     (case s of [] \<Rightarrow> False
      | c # cs \<Rightarrow>
          is_word c \<and>
          (case ws_star (dropWhile is_word s) of [] \<Rightarrow> False
           | e # r \<Rightarrow> e = CHR ''='' \<and> startsWith (ws_star r) ''function''))"

text \<open>The optional group \<open>(async\s+)?\<close>: the rest after it, when it is present.\<close>

definition async_group :: "string \<Rightarrow> string option" where
  "async_group s = (case literal ''async'' s of None \<Rightarrow> None | Some r \<Rightarrow> ws_plus r)"

text \<open>\<open>/^(async\s+)?function\s+\w+/\<close> on the trimmed line.\<close>

definition function_decl :: "string \<Rightarrow> bool" where
  "function_decl t =
     ((case async_group t of Some r \<Rightarrow> function_keyword r | None \<Rightarrow> False) \<or>
      function_keyword t)"

text \<open>\<open>/^(async\s+)?\w+\s*=\s*function/\<close> on the trimmed line.\<close>

definition function_expr :: "string \<Rightarrow> bool" where
  "function_expr t =
     ((case async_group t of Some r \<Rightarrow> function_assignment r | None \<Rightarrow> False) \<or>
      function_assignment t)"

text \<open>\<open>/^class\s+\w+/\<close> on the trimmed line.\<close>

definition class_decl :: "string \<Rightarrow> bool" where
  "class_decl t =
     (case literal ''class'' t of None \<Rightarrow> False
      | Some r \<Rightarrow> (case ws_plus r of None \<Rightarrow> False
                  | Some r' \<Rightarrow> (case r' of [] \<Rightarrow> False | c # cs \<Rightarrow> is_word c)))"

subsection \<open>extractFunctions and extractClasses\<close>

record function_info =
  fn_name :: string
  fn_content :: string
  fn_lines :: nat

text \<open>
  The loop state is \<open>functions\<close>, \<open>currentFunction\<close> and \<open>functionContent\<close>. The object
  in \<open>currentFunction\<close> is updated in place while it is current and is pushed when the
  next function starts or the loop ends.
\<close>

type_synonym functions_state = "function_info list \<times> function_info option \<times> string list"

definition extractFunctions_step :: "functions_state \<Rightarrow> string \<Rightarrow> functions_state" where
  "extractFunctions_step st line =
     (case st of (functions, currentFunction, functionContent) \<Rightarrow>
        if function_decl (trim line) \<or> function_expr (trim line) then
          ((case currentFunction of Some f \<Rightarrow> functions @ [f] | None \<Rightarrow> functions),
           Some \<lparr>fn_name = token_name line,
                 fn_content = line,
                 fn_lines = 1\<rparr>,
           [line])
        else
          (case currentFunction of
             Some f \<Rightarrow>
               (functions,
                Some (f\<lparr>fn_content := join [NL] (functionContent @ [line]),
                        fn_lines := length (functionContent @ [line])\<rparr>),
                functionContent @ [line])
           | None \<Rightarrow> (functions, None, functionContent)))"

fun extractFunctions_loop :: "functions_state \<Rightarrow> string list \<Rightarrow> functions_state" where
  "extractFunctions_loop st [] = st"
| "extractFunctions_loop st (line # rest) =
     extractFunctions_loop (extractFunctions_step st line) rest"

definition extractFunctions :: "string \<Rightarrow> function_info list" where
  "extractFunctions content =
     (case extractFunctions_loop ([], None, []) (split_on NL content) of
        (functions, currentFunction, functionContent) \<Rightarrow>
          (case currentFunction of Some f \<Rightarrow> functions @ [f] | None \<Rightarrow> functions))"

record class_info =
  cls_name :: string
  cls_content :: string

type_synonym classes_state = "class_info list \<times> class_info option \<times> string list"

definition extractClasses_step :: "classes_state \<Rightarrow> string \<Rightarrow> classes_state" where
  "extractClasses_step st line =
     (case st of (classes, currentClass, classContent) \<Rightarrow>
        if class_decl (trim line) then
          ((case currentClass of Some c \<Rightarrow> classes @ [c] | None \<Rightarrow> classes),
           Some \<lparr>cls_name = token_name line,
                 cls_content = line\<rparr>,
           [line])
        else
          (case currentClass of
             Some c \<Rightarrow>
               (classes,
                Some (c\<lparr>cls_content := join [NL] (classContent @ [line])\<rparr>),
                classContent @ [line])
           | None \<Rightarrow> (classes, None, classContent)))"

fun extractClasses_loop :: "classes_state \<Rightarrow> string list \<Rightarrow> classes_state" where
  "extractClasses_loop st [] = st"
| "extractClasses_loop st (line # rest) =
     extractClasses_loop (extractClasses_step st line) rest"

definition extractClasses :: "string \<Rightarrow> class_info list" where
  "extractClasses content =
     (case extractClasses_loop ([], None, []) (split_on NL content) of
        (classes, currentClass, classContent) \<Rightarrow>
          (case currentClass of Some c \<Rightarrow> classes @ [c] | None \<Rightarrow> classes))"

subsection \<open>findCodeDuplicates\<close>

record duplicate =
  startLine :: nat
  endLine :: nat

definition windowSize :: nat where
  "windowSize = 5"

text \<open>
  The two \<open>for\<close> loops. Their bound \<open>lines.length - windowSize\<close> is negative on fewer
  than five lines and then no index is below it; \<open>j + windowSize < length lines\<close> says
  the same on natural numbers.
\<close>

function duplicates_inner ::
  "string list \<Rightarrow> nat \<Rightarrow> string \<Rightarrow> nat \<Rightarrow> duplicate list \<Rightarrow> duplicate list" where
  "duplicates_inner lines i window j duplicates =
     (if j + windowSize < length lines then
        (let compareWindow = join [NL] (slice_arr j (j + windowSize) lines) in
         duplicates_inner lines i window (j + 1)
           (if window = compareWindow
            then duplicates @ [\<lparr>startLine = i + 1, endLine = i + windowSize\<rparr>]
            else duplicates))
      else duplicates)"
  by pat_completeness auto
termination
  by (relation "measure (\<lambda>(lines, i, window, j, duplicates). length lines - j)") auto

function duplicates_outer :: "string list \<Rightarrow> nat \<Rightarrow> duplicate list \<Rightarrow> duplicate list" where
  "duplicates_outer lines i duplicates =
     (if i + windowSize < length lines then
        (let window = join [NL] (slice_arr i (i + windowSize) lines) in
         duplicates_outer lines (i + 1)
           (duplicates_inner lines i window (i + windowSize) duplicates))
      else duplicates)"
  by pat_completeness auto
termination
  by (relation "measure (\<lambda>(lines, i, duplicates). length lines - i)") auto

definition findCodeDuplicates :: "string \<Rightarrow> duplicate list" where
  "findCodeDuplicates content = duplicates_outer (split_on NL content) 0 []"

subsection \<open>extractImports and findUnusedImports\<close>

fun extractImports_loop :: "string list \<Rightarrow> string list \<Rightarrow> string list" where
  "extractImports_loop imports [] = imports"
| "extractImports_loop imports (line # rest) =
     extractImports_loop
       (if startsWith (trim line) ''import'' then imports @ [trim line] else imports) rest"

definition extractImports :: "string \<Rightarrow> string list" where
  "extractImports content = extractImports_loop [] (split_on NL content)"

definition is_quote :: "char \<Rightarrow> bool" where
  "is_quote c = (c = CHR 0x27 \<or> c = CHR 0x22)"

text \<open>\<open>from\s+['"]([^'"]+)['"]\<close> at the head of the subject: the captured group.\<close>

definition from_clause :: "string \<Rightarrow> string option" where
  "from_clause s =
     (case literal ''from'' s of None \<Rightarrow> None
      | Some r \<Rightarrow>
          (case ws_plus r of None \<Rightarrow> None
           | Some r' \<Rightarrow>
               (case r' of [] \<Rightarrow> None
                | q # body \<Rightarrow>
                    if is_quote q
                       \<and> takeWhile (\<lambda>c. \<not> is_quote c) body \<noteq> []
                       \<and> dropWhile (\<lambda>c. \<not> is_quote c) body \<noteq> []
                    then Some (takeWhile (\<lambda>c. \<not> is_quote c) body)
                    else None)))"

text \<open>\<open>import\s+(\w+)\<close> at the head of the subject: the captured group.\<close>

definition import_binding :: "string \<Rightarrow> string option" where
  "import_binding s =
     (case literal ''import'' s of None \<Rightarrow> None
      | Some r \<Rightarrow>
          (case ws_plus r of None \<Rightarrow> None
           | Some r' \<Rightarrow>
               if takeWhile is_word r' \<noteq> [] then Some (takeWhile is_word r') else None))"

text \<open>
  \<open>imp.match(/from .../)?.[1] || imp.match(/import .../)?.[1]\<close>. A captured group is
  never empty, so \<open>||\<close> takes the second match exactly when the first is absent.
\<close>

definition importName :: "string \<Rightarrow> string option" where
  "importName imp =
     (case leftmost from_clause imp of
        Some n \<Rightarrow> Some n
      | None \<Rightarrow> leftmost import_binding imp)"

fun findUnusedImports_loop :: "string \<Rightarrow> string list \<Rightarrow> string list \<Rightarrow> string list" where
  "findUnusedImports_loop content unused [] = unused"
| "findUnusedImports_loop content unused (imp # rest) =
     findUnusedImports_loop content
       (case importName imp of
          Some n \<Rightarrow> if n \<noteq> [] \<and> \<not> str_includes content n then unused @ [imp] else unused
        | None \<Rightarrow> unused)
       rest"

definition findUnusedImports :: "string \<Rightarrow> string list \<Rightarrow> string list" where
  "findUnusedImports content imports = findUnusedImports_loop content [] imports"

section \<open>The Ollama service\<close>

subsection \<open>Data\<close>

datatype role = User | Assistant

record ChatMessage =
  role :: role
  content :: string
  timestamp :: string

record OllamaModel =
  name :: string
  model_size :: string
  modified_at :: string

text \<open>
  The fields of the class \<open>OllamaService\<close>. The constructor sets \<open>apiUrl\<close> and
  \<open>model\<close>; the other three have the initialisers of their declarations.
\<close>

record OllamaService =
  apiUrl :: string
  model :: string
  messageHistory :: "ChatMessage list"
  workspaceContext :: string
  currentFileContext :: "(string \<times> string) option"

definition new_OllamaService :: "string \<Rightarrow> string \<Rightarrow> OllamaService" where
  "new_OllamaService url m =
     \<lparr>apiUrl = url, model = m, messageHistory = [],
      workspaceContext = [], currentFileContext = None\<rparr>"

text \<open>
  A thrown value: an \<open>Error\<close> object with its \<open>name\<close> and \<open>message\<close>, or any other
  value, kept as the text \<open>String(value)\<close> gives.
\<close>

datatype js_error = JsError string string | Thrown string

text \<open>\<open>error instanceof Error ? error.message : String(error)\<close>\<close>

fun error_message :: "js_error \<Rightarrow> string" where
  "error_message (JsError n m) = m"
| "error_message (Thrown s) = s"

text \<open>\<open>String(error)\<close>, as a template literal or \<open>+\<close> renders a thrown value.\<close>

fun error_string :: "js_error \<Rightarrow> string" where
  "error_string (JsError n m) = (if n = [] then m else if m = [] then n else n @ '': '' @ m)"
| "error_string (Thrown s) = s"

text \<open>\<open>new Error(message)\<close>\<close>

definition new_Error :: "string \<Rightarrow> js_error" where
  "new_Error m = JsError ''Error'' m"

text \<open>The body of a \<open>POST /api/chat\<close> request.\<close>

record chat_request =
  req_url :: string
  req_model :: string
  messages :: "(role \<times> string) list"
  stream :: bool

text \<open>
  A response of the inference server: \<open>ok\<close>, \<open>status\<close>, and what reading the JSON body
  gives, the value the caller takes from it or the error raised on the way.
\<close>

record 'a response =
  ok :: bool
  status :: nat
  json :: "js_error + 'a"

subsection \<open>The environment\<close>

text \<open>
  Everything outside the class is an environment: the clock, the editor's workspace
  and the inference server. \<open>now k\<close> is the \<open>k\<close>-th reading of the clock during one call.
  \<open>workspaceFolders\<close> is empty when no folder is open. \<open>workspaceTree\<close> stands for
  \<open>findFiles\<close> followed by \<open>buildFileTree\<close> and \<open>formatFileTree\<close>: the rendered tree or
  the error raised. \<open>openTextDocument folder path\<close> is the text of the document at
  \<open>path\<close> under \<open>folder\<close>, or the error raised.

  The six report methods \<open>analyzeCode\<close>, \<open>searchCode\<close>, \<open>editFile\<close>, \<open>explainCode\<close>,
  \<open>suggestRefactoring\<close> and \<open>analyzeDependencies\<close> work through the editor and return a
  report or throw; the dispatcher passes them an argument and returns what they return.
  They are operations of the environment here, so every statement about the dispatcher
  holds whatever they do.
\<close>

record env =
  now :: "nat \<Rightarrow> string"
  workspaceFolders :: "string list"
  workspaceTree :: "js_error + string"
  openTextDocument :: "string \<Rightarrow> string \<Rightarrow> js_error + string"
  fetch_chat :: "chat_request \<Rightarrow> js_error + string response"
  fetch_tags :: "string \<Rightarrow> js_error + OllamaModel list response"
  analyzeCode :: "string \<Rightarrow> js_error + string"
  searchCode :: "string \<Rightarrow> js_error + string"
  editFile :: "string \<Rightarrow> nat \<Rightarrow> string \<Rightarrow> js_error + string"
  explainCode :: "string \<Rightarrow> js_error + string"
  suggestRefactoring :: "string \<Rightarrow> js_error + string"
  analyzeDependencies :: "string \<Rightarrow> js_error + string"

text \<open>The calls a method makes on the environment, in order.\<close>

datatype call =
    PostChat chat_request
  | GetTags string
  | FindFiles
  | OpenTextDocument string string
  | AnalyzeCode string
  | SearchCode string
  | EditFile string nat string
  | ExplainCode string
  | SuggestRefactoring string
  | AnalyzeDependencies string

text \<open>
  What a method of the service gives back: the value returned or the error thrown, the
  service after the call, and the calls made.
\<close>

type_synonym 'a outcome = "(js_error + 'a) \<times> OllamaService \<times> call list"

subsection \<open>History and model\<close>

definition addToHistory :: "OllamaService \<Rightarrow> ChatMessage \<Rightarrow> OllamaService" where
  "addToHistory svc message = svc\<lparr>messageHistory := messageHistory svc @ [message]\<rparr>"

definition clearHistory :: "OllamaService \<Rightarrow> OllamaService" where
  "clearHistory svc = svc\<lparr>messageHistory := []\<rparr>"

definition setModel :: "OllamaService \<Rightarrow> string \<Rightarrow> OllamaService" where
  "setModel svc m = svc\<lparr>model := m\<rparr>"

definition getModel :: "OllamaService \<Rightarrow> string" where
  "getModel svc = model svc"

definition getMessageHistory :: "OllamaService \<Rightarrow> ChatMessage list" where
  "getMessageHistory svc = messageHistory svc"

text \<open>\<open>this.messageHistory.map(msg => ({role: msg.role, content: msg.content}))\<close>\<close>

definition transcript :: "ChatMessage list \<Rightarrow> (role \<times> string) list" where
  "transcript history = map (\<lambda>msg. (role msg, content msg)) history"

subsection \<open>The inference server\<close>

text \<open>
  What follows \<open>await fetch(...)\<close> at each of its uses: a response that is not \<open>ok\<close>
  throws the HTTP error, otherwise the body is read.
\<close>

definition read_response :: "js_error + 'a response \<Rightarrow> js_error + 'a" where
  "read_response fetched =
     (case fetched of
        Inl e \<Rightarrow> Inl e
      | Inr response \<Rightarrow>
          if \<not> ok response
          then Inl (new_Error (''HTTP error! status: '' @ show_nat (status response)))
          else json response)"

text \<open>\<open>listModels\<close>: its \<open>catch\<close> logs and throws the same error again.\<close>

definition listModels :: "env \<Rightarrow> OllamaService \<Rightarrow> (js_error + OllamaModel list) \<times> call list" where
  "listModels env svc =
     (read_response (fetch_tags env (apiUrl svc @ ''/api/tags'')),
      [GetTags (apiUrl svc @ ''/api/tags'')])"

text \<open>
  The request the three scoped commands send, written out three times in the source
  with the prompt as the only difference: one user message, not the history.
\<close>

definition single_message_request :: "OllamaService \<Rightarrow> string \<Rightarrow> chat_request" where
  "single_message_request svc prompt =
     \<lparr>req_url = apiUrl svc @ ''/api/chat'', req_model = model svc,
      messages = [(User, prompt)], stream = False\<rparr>"

definition ask_single :: "env \<Rightarrow> OllamaService \<Rightarrow> string \<Rightarrow> (js_error + string) \<times> call list" where
  "ask_single env svc prompt =
     (read_response (fetch_chat env (single_message_request svc prompt)),
      [PostChat (single_message_request svc prompt)])"

subsection \<open>sendMessage\<close>

definition availableCommands :: "(string \<times> string) list" where
  "availableCommands =
     [(''@workspace'', ''Show the workspace structure''),
      (''@read'', ''Read contents of a file (usage: @read <filepath>)''),
      (''@analyze'', ''Analyze code for issues (usage: @analyze <filepath>)''),
      (''@search'', ''Search for code across files (usage: @search <query>)''),
      (''@edit'', ''Edit a file (usage: @edit <filepath> <line> <content>)''),
      (''@explain'', ''Explain code in a file (usage: @explain <filepath>)''),
      (''@refactor'', ''Suggest code refactoring (usage: @refactor <filepath>)''),
      (''@deps'', ''Show dependency analysis (usage: @deps <filepath>)''),
      (''@understand'', ''Get detailed code understanding (usage: @understand <filepath>)''),
      (''@help'', ''Show all available commands'')]"

definition getCommandSuggestions :: string where
  "getCommandSuggestions =
     foldl (\<lambda>suggestions cmd. suggestions @ fst cmd @ [NL])
       (''Available Commands:'' @ [NL, NL]) availableCommands
     @ [NL] @ ''Type @help for detailed information about each command.''"

text \<open>
  The text of the user turn: the message, replaced by the workspace form when
  \<open>workspaceContext\<close> is a non-empty string and then by the file form when
  \<open>currentFileContext\<close> is not \<open>null\<close>.
\<close>

definition contextMessage :: "OllamaService \<Rightarrow> string \<Rightarrow> string" where
  "contextMessage svc message =
     (let m1 = (if workspaceContext svc \<noteq> []
                then ''Workspace Context:'' @ [NL] @ workspaceContext svc @ [NL, NL]
                     @ ''User Question: '' @ message
                else message)
      in (case currentFileContext svc of
            Some (path, text) \<Rightarrow>
              ''Current File Context ('' @ path @ ''):'' @ [NL] @ text @ [NL, NL]
              @ ''User Question: '' @ message
          | None \<Rightarrow> m1))"

definition chat_history_request :: "OllamaService \<Rightarrow> chat_request" where
  "chat_history_request svc =
     \<lparr>req_url = apiUrl svc @ ''/api/chat'', req_model = model svc,
      messages = transcript (messageHistory svc), stream = False\<rparr>"

text \<open>\<open>sendMessage\<close>: its \<open>catch\<close> logs and throws the same error again.\<close>

definition sendMessage :: "env \<Rightarrow> OllamaService \<Rightarrow> string \<Rightarrow> string outcome" where
  "sendMessage env svc message =
     (if trim message = ''@'' then (Inr getCommandSuggestions, svc, [])
      else
        let svc1 = addToHistory svc
                     \<lparr>role = User, content = contextMessage svc message,
                      timestamp = now env 0\<rparr>
        in (case read_response (fetch_chat env (chat_history_request svc1)) of
              Inl e \<Rightarrow> (Inl e, svc1, [PostChat (chat_history_request svc1)])
            | Inr reply \<Rightarrow>
                (Inr reply,
                 addToHistory svc1 \<lparr>role = Assistant, content = reply, timestamp = now env 1\<rparr>,
                 [PostChat (chat_history_request svc1)])))"

subsection \<open>Workspace access\<close>

text \<open>\<open>scanWorkspace\<close> never throws: its \<open>catch\<close> returns a text.\<close>

definition scanWorkspace :: "env \<Rightarrow> string \<times> call list" where
  "scanWorkspace env =
     (if workspaceFolders env = [] then (''No workspace folder is open.'', [])
      else
        (case workspaceTree env of
           Inr tree \<Rightarrow> (''Workspace Structure:'' @ [NL, NL] @ tree, [FindFiles])
         | Inl e \<Rightarrow> (''Error scanning workspace: '' @ error_string e, [FindFiles])))"

text \<open>\<open>readFile\<close>: whatever is thrown inside is thrown again as a new \<open>Error\<close>.\<close>

definition readFile :: "env \<Rightarrow> string \<Rightarrow> (js_error + string) \<times> call list" where
  "readFile env filePath =
     (if workspaceFolders env = [] then
        (Inl (new_Error (''Failed to read file '' @ filePath @ '': ''
                @ error_string (new_Error ''No workspace folder is open.''))), [])
      else
        (case openTextDocument env (hd (workspaceFolders env)) filePath of
           Inr text \<Rightarrow> (Inr text, [OpenTextDocument (hd (workspaceFolders env)) filePath])
         | Inl e \<Rightarrow>
             (Inl (new_Error (''Failed to read file '' @ filePath @ '': '' @ error_string e)),
              [OpenTextDocument (hd (workspaceFolders env)) filePath])))"

subsection \<open>handleCommand\<close>

definition help_text :: string where
  "help_text = join [NL]
     [''Available commands:'',
      ''@help - Show this help message'',
      ''@list - List available models'',
      ''@clear - Clear chat history'',
      ''@model <n> - Change the current model'',
      ''@info - Show current model information'',
      ''@workspace: <query> - Use workspace as context and answer the query'',
      ''@read <file>: <query> - Use file as context and answer the query'',
      ''@analyze <file> - Analyze code in a file'',
      ''@search <query> - Search code in workspace'',
      ''@edit <file> <line> <content> - Edit a file'',
      ''@explain <file> - Explain code in a file'',
      ''@refactor <file> - Suggest refactoring'',
      ''@deps <file> - Analyze dependencies'',
      ''@understand <file> - Get detailed code understanding with context'']"

text \<open>\<open>case '@list'\<close>\<close>

definition command_list :: "env \<Rightarrow> OllamaService \<Rightarrow> string outcome" where
  "command_list env svc =
     (case listModels env svc of
        (Inl e, calls) \<Rightarrow> (Inl e, svc, calls)
      | (Inr models, calls) \<Rightarrow>
          (Inr (''Available models:'' @ [NL]
                @ join [NL] (map (\<lambda>m. ''- '' @ name m @ '' ('' @ model_size m @ '')'') models)),
           svc, calls))"

text \<open>\<open>case '@workspace'\<close>\<close>

definition workspacePrompt :: "string \<Rightarrow> string \<Rightarrow> string" where
  "workspacePrompt workspaceFiles query =
     ''Workspace Context:'' @ [NL] @ workspaceFiles @ [NL, NL] @ ''User Query: '' @ query"

definition command_workspace :: "env \<Rightarrow> OllamaService \<Rightarrow> string \<Rightarrow> string outcome" where
  "command_workspace env svc query =
     (if query = [] then (Inr ''Please provide a query after @workspace:'', svc, [])
      else
        (case scanWorkspace env of
           (workspaceFiles, calls) \<Rightarrow>
             (case ask_single env svc (workspacePrompt workspaceFiles query) of
                (result, calls') \<Rightarrow> (result, svc, calls @ calls'))))"

text \<open>\<open>baseCmd.startsWith('@model ')\<close>\<close>

definition command_model :: "env \<Rightarrow> OllamaService \<Rightarrow> string \<Rightarrow> string outcome" where
  "command_model env svc baseCmd =
     (let modelName = trim (slice_from 7 baseCmd) in
      case listModels env svc of
        (Inl e, calls) \<Rightarrow> (Inl e, svc, calls)
      | (Inr models, calls) \<Rightarrow>
          if \<exists>m \<in> set models. name m = modelName
          then (Inr (''Model changed to: '' @ modelName),
                clearHistory (setModel svc modelName), calls)
          else (Inr (''Error: Model '' @ [CHR 0x22] @ modelName @ [CHR 0x22] @ '' not found''),
                svc, calls))"

text \<open>\<open>baseCmd.startsWith('@read ')\<close>\<close>

definition filePrompt :: "string \<Rightarrow> string \<Rightarrow> string \<Rightarrow> string" where
  "filePrompt filePath fileContent query =
     ''File Context ('' @ filePath @ ''):'' @ [NL] @ fileContent @ [NL, NL]
     @ ''User Query: '' @ query"

definition command_read :: "env \<Rightarrow> OllamaService \<Rightarrow> string \<Rightarrow> string \<Rightarrow> string outcome" where
  "command_read env svc baseCmd query =
     (let filePath = trim (slice_from 6 baseCmd) in
      if query = [] then (Inr ''Please provide a query after the file path:'', svc, [])
      else
        (case readFile env filePath of
           (Inl e, calls) \<Rightarrow> (Inl e, svc, calls)
         | (Inr fileContent, calls) \<Rightarrow>
             (case ask_single env svc (filePrompt filePath fileContent query) of
                (result, calls') \<Rightarrow> (result, svc, calls @ calls'))))"

text \<open>\<open>baseCmd.startsWith('@understand ')\<close>\<close>

definition understandPrompt :: "string \<Rightarrow> string \<Rightarrow> string" where
  "understandPrompt filePath fileContent = join [NL]
     [''Please analyze and explain this code file in detail:'',
      ''File path: '' @ filePath,
      ''Content:'',
      fileContent,
      [],
      ''Please provide:'',
      ''1. A high-level overview of what this file does'',
      ''2. Key functions and their purposes'',
      ''3. Important data structures or patterns used'',
      ''4. Any notable dependencies or relationships with other files'',
      ''5. Potential areas for improvement or optimization'']"

definition command_understand :: "env \<Rightarrow> OllamaService \<Rightarrow> string \<Rightarrow> string outcome" where
  "command_understand env svc baseCmd =
     (let filePath = trim (slice_from 12 baseCmd) in
      case readFile env filePath of
        (Inl e, calls) \<Rightarrow> (Inl e, svc, calls)
      | (Inr fileContent, calls) \<Rightarrow>
          (case ask_single env svc (understandPrompt filePath fileContent) of
             (result, calls') \<Rightarrow> (result, svc, calls @ calls')))"

text \<open>
  \<open>baseCmd.match(/@edit\s+(\S+)\s+(\d+)\s+(.+)/i)\<close>. The flag \<open>i\<close> lets the literal
  match in either case. \<open>(\S+)\<close> and \<open>(\d+)\<close> take their longest runs, as white space
  must follow. \<open>(.+)\<close> runs to the next line terminator; when the white space after the
  digits reaches the end of the subject, the matcher gives back white space one
  character at a time until \<open>(.+)\<close> can start on a character that is not a line
  terminator.
\<close>

definition is_line_terminator :: "char \<Rightarrow> bool" where
  "is_line_terminator c = (c = CHR 0x0A \<or> c = CHR 0x0D)"

definition edit_content :: "string \<Rightarrow> string option" where
  "edit_content s =
     (let run = takeWhile is_ws s; rest = dropWhile is_ws s in
      if run = [] then None
      else if rest \<noteq> [] then Some (takeWhile (\<lambda>c. \<not> is_line_terminator c) rest)
      else
        (case filter (\<lambda>k. \<not> is_line_terminator (run ! k)) (rev [1..<length run]) of
           [] \<Rightarrow> None
         | k # ks \<Rightarrow> Some (takeWhile (\<lambda>c. \<not> is_line_terminator c) (drop k run))))"

definition edit_pattern :: "string \<Rightarrow> (string \<times> string \<times> string) option" where
  "edit_pattern s =
     (if toLowerCase (take 5 s) \<noteq> ''@edit'' then None
      else
        (case ws_plus (drop 5 s) of
           None \<Rightarrow> None
         | Some r1 \<Rightarrow>
             if takeWhile (\<lambda>c. \<not> is_ws c) r1 = [] then None
             else
               (case ws_plus (dropWhile (\<lambda>c. \<not> is_ws c) r1) of
                  None \<Rightarrow> None
                | Some r2 \<Rightarrow>
                    if takeWhile is_digit r2 = [] then None
                    else
                      (case edit_content (dropWhile is_digit r2) of
                         None \<Rightarrow> None
                       | Some text \<Rightarrow>
                           Some (takeWhile (\<lambda>c. \<not> is_ws c) r1, takeWhile is_digit r2, text)))))"

text \<open>\<open>parseInt(line)\<close> on a string of decimal digits.\<close>

definition digit_value :: "char \<Rightarrow> nat" where
  "digit_value c = length (takeWhile (\<lambda>d. d \<noteq> c) ''0123456789'')"

definition parseInt :: "string \<Rightarrow> nat" where
  "parseInt line = foldl (\<lambda>n c. 10 * n + digit_value c) 0 line"

text \<open>\<open>baseCmd.startsWith('@edit ')\<close>\<close>

definition command_edit :: "env \<Rightarrow> OllamaService \<Rightarrow> string \<Rightarrow> string outcome" where
  "command_edit env svc baseCmd =
     (case leftmost edit_pattern baseCmd of
        Some (filePath, line, text) \<Rightarrow>
          (editFile env filePath (parseInt line) text, svc,
           [EditFile filePath (parseInt line) text])
      | None \<Rightarrow>
          (Inr ''Error: Invalid edit command format. Use @edit <file> <line> <content>'',
           svc, []))"

text \<open>The \<open>default\<close> branch of the \<open>switch\<close>: the chain of prefix tests.\<close>

definition command_default :: "env \<Rightarrow> OllamaService \<Rightarrow> string \<Rightarrow> string \<Rightarrow> string outcome" where
  "command_default env svc baseCmd query =
     (if startsWith baseCmd ''@model '' then command_model env svc baseCmd
      else if startsWith baseCmd ''@read '' then command_read env svc baseCmd query
      else if startsWith baseCmd ''@understand '' then command_understand env svc baseCmd
      else if startsWith baseCmd ''@analyze '' then
        (analyzeCode env (trim (slice_from 9 baseCmd)), svc,
         [AnalyzeCode (trim (slice_from 9 baseCmd))])
      else if startsWith baseCmd ''@search '' then
        (searchCode env (trim (slice_from 8 baseCmd)), svc,
         [SearchCode (trim (slice_from 8 baseCmd))])
      else if startsWith baseCmd ''@edit '' then command_edit env svc baseCmd
      else if startsWith baseCmd ''@explain '' then
        (explainCode env (trim (slice_from 9 baseCmd)), svc,
         [ExplainCode (trim (slice_from 9 baseCmd))])
      else if startsWith baseCmd ''@refactor '' then
        (suggestRefactoring env (trim (slice_from 10 baseCmd)), svc,
         [SuggestRefactoring (trim (slice_from 10 baseCmd))])
      else if startsWith baseCmd ''@deps '' then
        (analyzeDependencies env (trim (slice_from 6 baseCmd)), svc,
         [AnalyzeDependencies (trim (slice_from 6 baseCmd))])
      else
        (Inr (''Unknown command: '' @ baseCmd @ [NL] @ ''Type @help to see available commands''),
         svc, []))"

text \<open>\<open>switch (baseCmd)\<close>\<close>

definition command_switch :: "env \<Rightarrow> OllamaService \<Rightarrow> string \<Rightarrow> string \<Rightarrow> string outcome" where
  "command_switch env svc baseCmd query =
     (if baseCmd = ''@help'' then (Inr help_text, svc, [])
      else if baseCmd = ''@list'' then command_list env svc
      else if baseCmd = ''@clear'' then (Inr ''Chat history cleared'', clearHistory svc, [])
      else if baseCmd = ''@info'' then (Inr (''Current model: '' @ model svc), svc, [])
      else if baseCmd = ''@workspace'' then command_workspace env svc query
      else command_default env svc baseCmd query)"

text \<open>
  \<open>const [cmdPart, ...queryParts] = cmd.split(':')\<close> on
  \<open>cmd = command.trim().toLowerCase()\<close>, then \<open>baseCmd\<close> and \<open>query\<close>.
\<close>

definition baseCmd_of :: "string \<Rightarrow> string" where
  "baseCmd_of command = trim (hd (split_on CHR '':'' (toLowerCase (trim command))))"

definition query_of :: "string \<Rightarrow> string" where
  "query_of command = trim (join '':'' (tl (split_on CHR '':'' (toLowerCase (trim command)))))"

text \<open>The \<open>try\<close> block: the command is pushed on the history first.\<close>

definition handleCommand_try :: "env \<Rightarrow> OllamaService \<Rightarrow> string \<Rightarrow> string outcome" where
  "handleCommand_try env svc command =
     command_switch env
       (addToHistory svc \<lparr>role = User, content = command, timestamp = now env 0\<rparr>)
       (baseCmd_of command) (query_of command)"

text \<open>\<open>handleCommand\<close>: the \<open>try\<close> block under its \<open>catch\<close>.\<close>

definition handleCommand :: "env \<Rightarrow> OllamaService \<Rightarrow> string \<Rightarrow> string outcome" where
  "handleCommand env svc command =
     (case handleCommand_try env svc command of
        (Inl error, svc', calls) \<Rightarrow>
          (Inr (''Error executing command: '' @ error_message error), svc', calls)
      | (Inr result, svc', calls) \<Rightarrow> (Inr result, svc', calls))"


subsection \<open>The states a service can reach\<close>

text \<open>
  The public methods of the class. Those that only read the service (\<open>listModels\<close>,
  \<open>getModel\<close>, \<open>getMessageHistory\<close>, \<open>scanWorkspace\<close>, \<open>readFile\<close> and the report methods)
  leave it as it is and are one operation here.
\<close>

datatype operation =
    SendMessage string
  | HandleCommand string
  | SetModel string
  | ClearHistory
  | AddToHistory ChatMessage
  | ReadOnly

fun apply_operation :: "env \<Rightarrow> OllamaService \<Rightarrow> operation \<Rightarrow> OllamaService" where
  "apply_operation env svc (SendMessage message) = fst (snd (sendMessage env svc message))"
| "apply_operation env svc (HandleCommand command) = fst (snd (handleCommand env svc command))"
| "apply_operation env svc (SetModel m) = setModel svc m"
| "apply_operation env svc ClearHistory = clearHistory svc"
| "apply_operation env svc (AddToHistory message) = addToHistory svc message"
| "apply_operation env svc ReadOnly = svc"

text \<open>
  A reachable service: constructed, then any operations, each under any environment.
\<close>

inductive reachable :: "OllamaService \<Rightarrow> bool" where
  constructed: "reachable (new_OllamaService url m)"
| operated: "reachable svc \<Longrightarrow> reachable (apply_operation env svc operation)"

subsection \<open>Example environments\<close>

definition example_service :: OllamaService where
  "example_service = new_OllamaService ''http://localhost:11434'' ''llama2''"

text \<open>No folder is open; the server answers every chat request with \<open>Hello\<close>.\<close>

definition closed_workspace :: env where
  "closed_workspace =
     \<lparr>now = (\<lambda>k. ''2024-01-01T00:00:00.000Z''),
      workspaceFolders = [],
      workspaceTree = Inr [],
      openTextDocument = (\<lambda>folder path. Inl (new_Error ''File not found'')),
      fetch_chat = (\<lambda>request. Inr \<lparr>ok = True, status = 200, json = Inr ''Hello''\<rparr>),
      fetch_tags = (\<lambda>u. Inr \<lparr>ok = True, status = 200,
                              json = Inr [\<lparr>name = ''llama2'', model_size = ''3.8 GB'',
                                           modified_at = ''2024-01-01''\<rparr>]\<rparr>),
      analyzeCode = (\<lambda>p. Inr ''analysis''),
      searchCode = (\<lambda>q. Inr ''matches''),
      editFile = (\<lambda>p n t. Inr ''edited''),
      explainCode = (\<lambda>p. Inr ''explanation''),
      suggestRefactoring = (\<lambda>p. Inr ''suggestions''),
      analyzeDependencies = (\<lambda>p. Inr ''dependencies'')\<rparr>"

text \<open>
  The folder \<open>/project\<close> is open on a file system that tells upper case from lower
  case, and holds the file \<open>src/ollamaService.ts\<close>.
\<close>

definition open_workspace :: env where
  "open_workspace =
     closed_workspace
       \<lparr>workspaceFolders := [''/project''],
        workspaceTree := Inr ''src/'',
        openTextDocument :=
          (\<lambda>folder path.
             if folder = ''/project'' \<and> path = ''src/ollamaService.ts''
             then Inr ''export class OllamaService {}''
             else Inl (new_Error ''File not found''))\<rparr>"



text \<open>The two context fields of a service.\<close>

definition ctx :: "OllamaService \<Rightarrow> string \<times> (string \<times> string) option" where
  "ctx svc = (workspaceContext svc, currentFileContext svc)"

section \<open>Properties\<close>

subsection \<open>Strings\<close>

lemma startsWith_prefix: "startsWith s p = prefix p s"
  by (induction s p rule: startsWith.induct) auto

lemma str_includes_sublist: "str_includes s t = sublist t s"
  by (induction s) (simp_all add: startsWith_prefix sublist_Cons_right)


lemma is_ws_not_word: "is_ws c \<Longrightarrow> \<not> is_word c"
  by (auto simp: is_ws_def is_word_def)

lemma trim_decomp:
  "\<exists>a b. l = a @ trim l @ b \<and> (\<forall>c \<in> set a. is_ws c) \<and> (\<forall>c \<in> set b. is_ws c)"
proof -
  let ?d = "dropWhile is_ws l"
  have 1: "l = takeWhile is_ws l @ ?d" by simp
  have "rev ?d = takeWhile is_ws (rev ?d) @ dropWhile is_ws (rev ?d)"
    by (simp only: takeWhile_dropWhile_id)
  then have "rev (rev ?d) = rev (dropWhile is_ws (rev ?d)) @ rev (takeWhile is_ws (rev ?d))"
    by (metis rev_append)
  then have 2: "?d = trim l @ rev (takeWhile is_ws (rev ?d))"
    by (simp only: rev_rev_ident trim_def)
  have 3: "\<forall>c \<in> set (takeWhile is_ws l). is_ws c" by (auto dest: set_takeWhileD)
  have 4: "\<forall>c \<in> set (rev (takeWhile is_ws (rev ?d))). is_ws c" by (auto dest: set_takeWhileD)
  from 1 2 have "l = takeWhile is_ws l @ trim l @ rev (takeWhile is_ws (rev ?d))" by simp
  with 3 4 show ?thesis by blast
qed

lemma trim_sublist: "sublist (trim l) l"
  using trim_decomp[of l] by (metis sublist_appendI)

subsection \<open>Code inspection\<close>

subsubsection \<open>calculateCodeComplexity\<close>

lemma split_nonempty: "split_on sep s \<noteq> []"
  by (induction s) (auto split: list.splits)

lemma complexity_loop_count:
  "complexity_loop c ls = c + length (filter (\<lambda>l. branching (trim l)) ls)"
  by (induction ls arbitrary: c) (simp_all add: complexity_step_def)

text \<open>
  C6. The complexity starts at 1 and grows by exactly one for each line whose trimmed
  text contains one of the keywords or operators, however many of them the line holds:
  it is 1 plus the number of such lines, hence at most 1 plus the number of lines. The
  empty text has complexity 1, the two lines \<open>if (x) {}\<close> and \<open>else {}\<close> have
  complexity 3, with or without a final newline, and the single line \<open>if (a && b) {} else {}\<close>, holding three of them,
  has complexity 2.
\<close>

theorem complexity_once_per_line:
  "calculateCodeComplexity src =
     1 + length (filter (\<lambda>l. branching (trim l)) (split_on NL src))
   \<and> calculateCodeComplexity src \<le> 1 + length (split_on NL src)
   \<and> calculateCodeComplexity [] = 1
   \<and> calculateCodeComplexity (''if (x) {}'' @ [NL] @ ''else {}'') = 3
   \<and> calculateCodeComplexity (''if (x) {}'' @ [NL] @ ''else {}'' @ [NL]) = 3
   \<and> calculateCodeComplexity ''if (a && b) {} else {}'' = 2"
proof -
  have count: "\<And>c. calculateCodeComplexity c =
      1 + length (filter (\<lambda>l. branching (trim l)) (split_on NL c))"
    by (simp add: calculateCodeComplexity_def complexity_loop_count)
  have bound: "calculateCodeComplexity src \<le> 1 + length (split_on NL src)"
    by (simp add: count)
  have empty: "calculateCodeComplexity [] = 1"
    by code_simp
  have two: "calculateCodeComplexity (''if (x) {}'' @ [NL] @ ''else {}'') = 3"
    by code_simp
  have two': "calculateCodeComplexity (''if (x) {}'' @ [NL] @ ''else {}'' @ [NL]) = 3"
    by code_simp
  have one: "calculateCodeComplexity ''if (a && b) {} else {}'' = 2"
    by code_simp
  from count bound empty two two' one show ?thesis by blast
qed

subsubsection \<open>findCodeDuplicates\<close>

declare duplicates_inner.simps [simp del] duplicates_outer.simps [simp del]

lemma duplicates_inner_past_end:
  "length lines \<le> j + windowSize \<Longrightarrow> duplicates_inner lines i window j duplicates = duplicates"
  by (subst duplicates_inner.simps) simp

lemma duplicates_outer_short:
  "length lines \<le> 2 * windowSize \<Longrightarrow> duplicates_outer lines i duplicates = duplicates"
proof (induction lines i duplicates rule: duplicates_outer.induct)
  case (1 lines i duplicates)
  show ?case
  proof (cases "i + windowSize < length lines")
    case True
    have "duplicates_inner lines i (join [NL] (slice_arr i (i + windowSize) lines))
            (i + windowSize) duplicates = duplicates"
      using "1.prems" by (intro duplicates_inner_past_end) simp
    with True "1.IH" "1.prems" show ?thesis
      by (subst duplicates_outer.simps) (simp add: Let_def)
  next
    case False
    then show ?thesis by (subst duplicates_outer.simps) simp
  qed
qed

lemma findCodeDuplicates_ten_lines:
  "length (split_on NL src) \<le> 10 \<Longrightarrow> findCodeDuplicates src = []"
  by (simp add: findCodeDuplicates_def duplicates_outer_short windowSize_def)

text \<open>
  C5. Both loops stop before the last window: on at most ten lines nothing is ever
  recorded. Ten lines whose second half repeats the first give no window; the same
  text with a final newline, which \<open>split\<close> reads as eleven lines, gives the window of
  lines 1 to 5.
\<close>

theorem last_window_never_compared:
  "length (split_on NL ''a\<newline>b\<newline>c\<newline>d\<newline>e\<newline>a\<newline>b\<newline>c\<newline>d\<newline>e'') = 10
   \<and> findCodeDuplicates ''a\<newline>b\<newline>c\<newline>d\<newline>e\<newline>a\<newline>b\<newline>c\<newline>d\<newline>e'' = []
   \<and> findCodeDuplicates ''a\<newline>b\<newline>c\<newline>d\<newline>e\<newline>a\<newline>b\<newline>c\<newline>d\<newline>e\<newline>''
       = [\<lparr>startLine = 1, endLine = 5\<rparr>]"
  by code_simp

subsubsection \<open>extractImports and findUnusedImports\<close>

lemma leftmost_suffix: "leftmost m s = Some n \<Longrightarrow> \<exists>t. suffix t s \<and> m t = Some n"
proof (induction s)
  case Nil
  then show ?case by auto
next
  case (Cons c cs)
  show ?case
  proof (cases "m (c # cs)")
    case None
    with Cons obtain t where "suffix t cs" "m t = Some n" by auto
    then show ?thesis by (auto simp: suffix_Cons)
  next
    case (Some r)
    with Cons.prems show ?thesis by auto
  qed
qed

lemma literal_suffix: "literal p s = Some r \<Longrightarrow> suffix r s"
  by (auto simp: literal_def suffix_drop split: if_splits)

lemma ws_plus_suffix: "ws_plus s = Some r \<Longrightarrow> suffix r s"
  by (auto simp: ws_plus_def suffix_Cons suffix_dropWhile split: list.splits if_splits)

lemma from_clause_sublist: "from_clause s = Some n \<Longrightarrow> sublist n s"
proof -
  assume a: "from_clause s = Some n"
  then obtain r r' q body where 1: "literal ''from'' s = Some r" and 2: "ws_plus r = Some r'"
    and 3: "r' = q # body" and 4: "n = takeWhile (\<lambda>c. \<not> is_quote c) body"
    by (auto simp: from_clause_def split: option.splits list.splits if_splits)
  have "prefix n body" using 4 by (simp add: takeWhile_is_prefix)
  moreover have "suffix body r'" using 3 by (simp add: suffix_Cons)
  moreover have "suffix r' s" using literal_suffix[OF 1] ws_plus_suffix[OF 2] by (auto simp: suffix_def)
  ultimately show ?thesis
    by (meson prefix_imp_sublist suffix_imp_sublist sublist_order.order.trans)
qed

lemma import_binding_sublist: "import_binding s = Some n \<Longrightarrow> sublist n s"
proof -
  assume a: "import_binding s = Some n"
  then obtain r r' where 1: "literal ''import'' s = Some r" and 2: "ws_plus r = Some r'"
    and 4: "n = takeWhile is_word r'"
    by (auto simp: import_binding_def split: option.splits if_splits)
  have "prefix n r'" using 4 by (simp add: takeWhile_is_prefix)
  moreover have "suffix r' s" using literal_suffix[OF 1] ws_plus_suffix[OF 2] by (auto simp: suffix_def)
  ultimately show ?thesis
    by (meson prefix_imp_sublist suffix_imp_sublist sublist_order.order.trans)
qed

lemma importName_sublist: "importName imp = Some n \<Longrightarrow> sublist n imp"
proof -
  assume "importName imp = Some n"
  then consider "leftmost from_clause imp = Some n" | "leftmost import_binding imp = Some n"
    by (auto simp: importName_def split: option.splits)
  then show ?thesis
  proof cases
    case 1
    from leftmost_suffix[OF 1] obtain t where "suffix t imp" "from_clause t = Some n" by blast
    then show ?thesis using from_clause_sublist
      by (meson suffix_imp_sublist sublist_order.order.trans)
  next
    case 2
    from leftmost_suffix[OF 2] obtain t where "suffix t imp" "import_binding t = Some n" by blast
    then show ?thesis using import_binding_sublist
      by (meson suffix_imp_sublist sublist_order.order.trans)
  qed
qed

lemma split_on_hd_prefix: "split_on sep s = w # ws \<Longrightarrow> prefix w s"
proof (induction s arbitrary: w ws)
  case Nil
  then show ?case by simp
next
  case (Cons c cs)
  show ?case
  proof (cases "c = sep")
    case True
    with Cons.prems show ?thesis by simp
  next
    case False
    obtain v vs where v: "split_on sep cs = v # vs"
      using split_nonempty[of sep cs] by (cases "split_on sep cs") auto
    with False Cons.prems have "w = c # v" by simp
    with Cons.IH[OF v] show ?thesis by simp
  qed
qed

lemma split_on_sublist: "l \<in> set (split_on sep s) \<Longrightarrow> sublist l s"
proof (induction s arbitrary: l)
  case Nil
  then show ?case by simp
next
  case (Cons c cs)
  obtain w ws where w: "split_on sep cs = w # ws"
    using split_nonempty[of sep cs] by (cases "split_on sep cs") auto
  show ?case
  proof (cases "c = sep")
    case True
    with Cons.prems have "l = [] \<or> l \<in> set (split_on sep cs)" by simp
    then show ?thesis using Cons.IH by (auto simp: sublist_Cons_right)
  next
    case False
    with w Cons.prems have "l = c # w \<or> l \<in> set ws" by simp
    then show ?thesis
    proof
      assume l: "l = c # w"
      have "prefix l (c # cs)" using split_on_hd_prefix[OF w] l by simp
      then show ?thesis by (rule prefix_imp_sublist)
    next
      assume "l \<in> set ws"
      then have "sublist l cs" using Cons.IH w by simp
      then show ?thesis by (simp add: sublist_Cons_right)
    qed
  qed
qed

lemma extractImports_loop_filter:
  "extractImports_loop acc ls =
     acc @ map trim (filter (\<lambda>l. startsWith (trim l) ''import'') ls)"
  by (induction ls arbitrary: acc) simp_all

lemma extractImports_sublist: "imp \<in> set (extractImports src) \<Longrightarrow> sublist imp src"
proof -
  assume "imp \<in> set (extractImports src)"
  then obtain l where l: "l \<in> set (split_on NL src)" "imp = trim l"
    by (auto simp: extractImports_def extractImports_loop_filter)
  from split_on_sublist[OF l(1)] trim_sublist[of l] l(2) show ?thesis
    by (meson sublist_order.order.trans)
qed

lemma findUnusedImports_loop_none:
  "(\<And>imp n. imp \<in> set imps \<Longrightarrow> importName imp = Some n \<Longrightarrow> str_includes src n) \<Longrightarrow>
   findUnusedImports_loop src unused imps = unused"
  by (induction imps arbitrary: unused) (auto split: option.splits)

lemma findUnusedImports_of_extractImports:
  "findUnusedImports src (extractImports src) = []"
  unfolding findUnusedImports_def
proof (rule findUnusedImports_loop_none)
  fix imp n
  assume "imp \<in> set (extractImports src)" "importName imp = Some n"
  then have "sublist n src"
    using extractImports_sublist importName_sublist by (meson sublist_order.order.trans)
  then show "str_includes src n" by (simp add: str_includes_sublist)
qed

text \<open>
  C8. The name of an import is looked for in the whole text, and the import line is
  part of the text: no import taken from the text is ever reported. In the text below
  \<open>bar\<close>, the name of the only import, occurs nowhere but on its import line, and
  the result is empty.
\<close>

theorem unused_import_not_reported:
  "extractImports (''import foo from '' @ [CHR 0x27] @ ''bar'' @ [CHR 0x27] @ [NL] @ ''let x = 1'')
     = [''import foo from '' @ [CHR 0x27] @ ''bar'' @ [CHR 0x27]]
   \<and> importName (''import foo from '' @ [CHR 0x27] @ ''bar'' @ [CHR 0x27]) = Some ''bar''
   \<and> \<not> str_includes ''let x = 1'' ''bar''
   \<and> findUnusedImports
         (''import foo from '' @ [CHR 0x27] @ ''bar'' @ [CHR 0x27] @ [NL] @ ''let x = 1'')
         [''import foo from '' @ [CHR 0x27] @ ''bar'' @ [CHR 0x27]] = []"
  by code_simp

subsubsection \<open>extractFunctions and extractClasses\<close>

lemma extractFunctions_loop_names:
  "(case extractFunctions_loop (fs, cur, fc) ls of
      (fs', cur', fc') \<Rightarrow> map fn_name (fs' @ (case cur' of Some f \<Rightarrow> [f] | None \<Rightarrow> [])))
   = map fn_name (fs @ (case cur of Some f \<Rightarrow> [f] | None \<Rightarrow> []))
     @ map token_name (filter (\<lambda>l. function_decl (trim l) \<or> function_expr (trim l)) ls)"
proof (induction ls arbitrary: fs cur fc)
  case Nil
  show ?case by simp
next
  case (Cons l ls)
  obtain fs1 cur1 fc1 where st: "extractFunctions_step (fs, cur, fc) l = (fs1, cur1, fc1)"
    by (cases "extractFunctions_step (fs, cur, fc) l") auto
  have step: "map fn_name (fs1 @ (case cur1 of Some f \<Rightarrow> [f] | None \<Rightarrow> []))
      = map fn_name (fs @ (case cur of Some f \<Rightarrow> [f] | None \<Rightarrow> []))
        @ map token_name (filter (\<lambda>l. function_decl (trim l) \<or> function_expr (trim l)) [l])"
    using st by (auto simp: extractFunctions_step_def split: option.splits if_splits)
  show ?case using Cons.IH[of fs1 cur1 fc1] step by (simp add: st)
qed

lemma extractFunctions_names:
  "map fn_name (extractFunctions src)
   = map token_name (filter (\<lambda>l. function_decl (trim l) \<or> function_expr (trim l)) (split_on NL src))"
proof -
  obtain fs cur fc where r: "extractFunctions_loop ([], None, []) (split_on NL src) = (fs, cur, fc)"
    by (cases "extractFunctions_loop ([], None, []) (split_on NL src)") auto
  have "extractFunctions src = fs @ (case cur of Some f \<Rightarrow> [f] | None \<Rightarrow> [])"
    by (simp add: extractFunctions_def r split: option.splits)
  with extractFunctions_loop_names[of "[]" None "[]" "split_on NL src"] r show ?thesis by simp
qed

lemma extractClasses_loop_names:
  "(case extractClasses_loop (cs, cur, cc) ls of
      (cs', cur', cc') \<Rightarrow> map cls_name (cs' @ (case cur' of Some c \<Rightarrow> [c] | None \<Rightarrow> [])))
   = map cls_name (cs @ (case cur of Some c \<Rightarrow> [c] | None \<Rightarrow> []))
     @ map token_name (filter (\<lambda>l. class_decl (trim l)) ls)"
proof (induction ls arbitrary: cs cur cc)
  case Nil
  show ?case by simp
next
  case (Cons l ls)
  obtain cs1 cur1 cc1 where st: "extractClasses_step (cs, cur, cc) l = (cs1, cur1, cc1)"
    by (cases "extractClasses_step (cs, cur, cc) l") auto
  have step: "map cls_name (cs1 @ (case cur1 of Some c \<Rightarrow> [c] | None \<Rightarrow> []))
      = map cls_name (cs @ (case cur of Some c \<Rightarrow> [c] | None \<Rightarrow> []))
        @ map token_name (filter (\<lambda>l. class_decl (trim l)) [l])"
    using st by (auto simp: extractClasses_step_def split: option.splits if_splits)
  show ?case using Cons.IH[of cs1 cur1 cc1] step by (simp add: st)
qed

lemma extractClasses_names:
  "map cls_name (extractClasses src)
   = map token_name (filter (\<lambda>l. class_decl (trim l)) (split_on NL src))"
proof -
  obtain cs cur cc where r: "extractClasses_loop ([], None, []) (split_on NL src) = (cs, cur, cc)"
    by (cases "extractClasses_loop ([], None, []) (split_on NL src)") auto
  have "extractClasses src = cs @ (case cur of Some c \<Rightarrow> [c] | None \<Rightarrow> [])"
    by (simp add: extractClasses_def r split: option.splits)
  with extractClasses_loop_names[of "[]" None "[]" "split_on NL src"] r show ?thesis by simp
qed

lemma dropWhile_all: "(\<forall>c \<in> set a. P c) \<Longrightarrow> dropWhile P (a @ s) = dropWhile P s"
  by (induction a) simp_all

lemma takeWhile_none: "(\<forall>c \<in> set b. \<not> P c) \<Longrightarrow> takeWhile P (t @ b) = takeWhile P t"
  by (induction t) (simp_all, cases b, simp_all)

lemma first_word_trimmed:
  assumes "trim l = c # cs" and "is_word c"
  shows "first_word l = Some (takeWhile is_word (trim l))"
proof -
  from trim_decomp[of l] obtain a b where d: "l = a @ trim l @ b"
    and a: "\<forall>c \<in> set a. is_ws c" and b: "\<forall>c \<in> set b. is_ws c" by blast
  have a': "\<forall>c \<in> set a. \<not> is_word c" using a is_ws_not_word by blast
  have b': "\<forall>c \<in> set b. \<not> is_word c" using b is_ws_not_word by blast
  have "dropWhile (\<lambda>c. \<not> is_word c) l = dropWhile (\<lambda>c. \<not> is_word c) (trim l @ b)"
    using dropWhile_all[of a "\<lambda>c. \<not> is_word c" "trim l @ b"] a' d by metis
  also have "\<dots> = trim l @ b" using assms by simp
  finally have 1: "dropWhile (\<lambda>c. \<not> is_word c) l = trim l @ b" .
  have 2: "takeWhile is_word (trim l @ b) = takeWhile is_word (trim l)"
    using takeWhile_none[of b is_word "trim l"] b' by blast
  show ?thesis using 1 2 assms by (simp add: first_word_def)
qed

lemma literal_append: "literal p s = Some r \<Longrightarrow> s = p @ r"
  by (auto simp: literal_def startsWith_prefix prefix_def split: if_splits)

lemma ws_plus_Cons: "ws_plus r = Some r' \<Longrightarrow> \<exists>c cs. r = c # cs \<and> is_ws c"
  by (auto simp: ws_plus_def split: list.splits if_splits)

lemma keyword_then_ws:
  assumes "literal p t = Some r" and "ws_plus r = Some r'" and "\<forall>c \<in> set p. is_word c"
  shows "takeWhile is_word t = p"
proof -
  from ws_plus_Cons[OF assms(2)] obtain c cs where r: "r = c # cs" "is_ws c" by blast
  then have "\<not> is_word c" by (simp add: is_ws_not_word)
  with literal_append[OF assms(1)] r(1) assms(3) show ?thesis
    by (simp add: takeWhile_append2)
qed

lemma function_keyword_token:
  "function_keyword t \<Longrightarrow> takeWhile is_word t = ''function''"
proof -
  assume "function_keyword t"
  then obtain r r' where "literal ''function'' t = Some r" "ws_plus r = Some r'"
    by (auto simp: function_keyword_def split: option.splits)
  then show ?thesis by (rule keyword_then_ws) (simp add: is_word_def)
qed

lemma async_group_token:
  "async_group t = Some r' \<Longrightarrow> takeWhile is_word t = ''async''"
proof -
  assume "async_group t = Some r'"
  then obtain r where "literal ''async'' t = Some r" "ws_plus r = Some r'"
    by (auto simp: async_group_def split: option.splits)
  then show ?thesis by (rule keyword_then_ws) (simp add: is_word_def)
qed

lemma class_decl_token:
  "class_decl t \<Longrightarrow> takeWhile is_word t = ''class''"
proof -
  assume "class_decl t"
  then obtain r r' where "literal ''class'' t = Some r" "ws_plus r = Some r'"
    by (auto simp: class_decl_def split: option.splits)
  then show ?thesis by (rule keyword_then_ws) (simp add: is_word_def)
qed

lemma token_head: "takeWhile is_word t = c # cs \<Longrightarrow> \<exists>r. t = c # r \<and> is_word c"
  by (cases t) (auto split: if_splits)

lemma function_assignment_head:
  "function_assignment t \<Longrightarrow> \<exists>c r. t = c # r \<and> is_word c"
  by (auto simp: function_assignment_def split: list.splits)

lemma function_start_head:
  assumes "function_decl t \<or> function_expr t"
  shows "\<exists>c r. t = c # r \<and> is_word c"
proof -
  from assms consider r where "async_group t = Some r" | "function_keyword t" | "function_assignment t"
    by (auto simp: function_decl_def function_expr_def split: option.splits)
  then show ?thesis
  proof cases
    case 1
    from async_group_token[OF 1] token_head[of t "CHR ''a''" "''sync''"] show ?thesis by auto
  next
    case 2
    from function_keyword_token[OF 2] token_head[of t "CHR ''f''" "''unction''"] show ?thesis by auto
  next
    case 3
    then show ?thesis by (rule function_assignment_head)
  qed
qed

lemma token_name_start:
  assumes "function_decl (trim l) \<or> function_expr (trim l)"
  shows "first_word l = Some (takeWhile is_word (trim l))"
proof -
  from function_start_head[OF assms] obtain c r where "trim l = c # r" "is_word c" by blast
  then show ?thesis by (rule first_word_trimmed)
qed

lemma token_name_class:
  assumes "class_decl (trim l)"
  shows "token_name l = ''class''"
proof -
  from class_decl_token[OF assms] token_head[of "trim l" "CHR ''c''" "''lass''"]
  obtain r where "trim l = CHR ''c'' # r" "is_word CHR ''c''" by auto
  from first_word_trimmed[OF this] class_decl_token[OF assms] show ?thesis
    by (simp add: token_name_def)
qed

lemma token_name_function:
  assumes "function_keyword (trim l)"
  shows "token_name l = ''function''"
proof -
  from function_keyword_token[OF assms] token_head[of "trim l" "CHR ''f''" "''unction''"]
  obtain r where "trim l = CHR ''f'' # r" "is_word CHR ''f''" by auto
  from first_word_trimmed[OF this] function_keyword_token[OF assms] show ?thesis
    by (simp add: token_name_def)
qed

lemma token_name_async:
  assumes "async_group (trim l) = Some r'"
  shows "token_name l = ''async''"
proof -
  from async_group_token[OF assms] token_head[of "trim l" "CHR ''a''" "''sync''"]
  obtain r where "trim l = CHR ''a'' # r" "is_word CHR ''a''" by auto
  from first_word_trimmed[OF this] async_group_token[OF assms] show ?thesis
    by (simp add: token_name_def)
qed

lemma token_name_assignment:
  assumes "function_assignment (trim l)"
  shows "token_name l = takeWhile is_word (trim l)"
proof -
  from function_assignment_head[OF assms] obtain c r where "trim l = c # r" "is_word c" by blast
  from first_word_trimmed[OF this] show ?thesis by (simp add: token_name_def)
qed

lemma map_class: "map token_name (filter (\<lambda>l. class_decl (trim l)) ls)
   = map (\<lambda>l. ''class'') (filter (\<lambda>l. class_decl (trim l)) ls)"
  by (induction ls) (simp_all add: token_name_class)

text \<open>
  C10, as amended. The names \<open>extractFunctions\<close> records are the first word tokens of
  the lines that match a function-start pattern, in order; such a line always holds a
  word token, so the fallback \<open>anonymous\<close> is not taken. The token is \<open>function\<close> when
  the trimmed line begins \<open>function NAME\<close>, \<open>async\<close> when it begins with \<open>async\<close> and
  white space, and the identifier itself when it begins \<open>NAME = function\<close>.
  \<open>extractClasses\<close> records \<open>class\<close> for every \<open>class NAME\<close> line.
\<close>

theorem names_are_first_tokens:
  "map fn_name (extractFunctions src)
     = map token_name
         (filter (\<lambda>l. function_decl (trim l) \<or> function_expr (trim l)) (split_on NL src))
   \<and> (function_decl (trim l) \<or> function_expr (trim l) \<longrightarrow> first_word l \<noteq> None)
   \<and> (function_keyword (trim l) \<longrightarrow> token_name l = ''function'')
   \<and> (async_group (trim l) \<noteq> None \<longrightarrow> token_name l = ''async'')
   \<and> (function_assignment (trim l) \<longrightarrow> token_name l = takeWhile is_word (trim l))
   \<and> map cls_name (extractClasses src)
       = map (\<lambda>l. ''class'') (filter (\<lambda>l. class_decl (trim l)) (split_on NL src))"
  using extractFunctions_names[of src] extractClasses_names[of src]
    token_name_start[of l] token_name_function[of l] token_name_async[of l]
    token_name_assignment[of l] map_class[of "split_on NL src"]
  by auto

text \<open>
  C10 as stated fails: the line \<open>foo = function() {}\<close> matches the second pattern,
  and the name recorded for it is \<open>foo\<close>, the declared identifier.
\<close>

theorem names_are_first_tokens_counterexample:
  "function_expr (trim ''foo = function() {}'')
   \<and> takeWhile is_word (trim ''foo = function() {}'') = ''foo''
   \<and> map fn_name (extractFunctions ''foo = function() {}'') = [''foo'']"
  by code_simp

text \<open>One line for each form of a function start.\<close>

theorem names_are_first_tokens_witness:
  "function_keyword (trim ''  function foo() {}'')
   \<and> token_name ''  function foo() {}'' = ''function''
   \<and> async_group (trim ''async function bar() {}'') \<noteq> None
   \<and> token_name ''async function bar() {}'' = ''async''
   \<and> function_assignment (trim ''baz = function() {}'')
   \<and> token_name ''baz = function() {}'' = takeWhile is_word (trim ''baz = function() {}'')
   \<and> first_word ''baz = function() {}'' \<noteq> None"
proof -
  have 1: "function_keyword (trim ''  function foo() {}'')" by code_simp
  have 2: "async_group (trim ''async function bar() {}'') \<noteq> None" by code_simp
  have 3: "function_assignment (trim ''baz = function() {}'')" by code_simp
  have 4: "function_decl (trim ''baz = function() {}'') \<or> function_expr (trim ''baz = function() {}'')"
    by code_simp
  from 1 names_are_first_tokens[of "[]" "''  function foo() {}''"]
  have a: "token_name ''  function foo() {}'' = ''function''" by blast
  from 2 names_are_first_tokens[of "[]" "''async function bar() {}''"]
  have b: "token_name ''async function bar() {}'' = ''async''" by blast
  from 3 4 names_are_first_tokens[of "[]" "''baz = function() {}''"]
  have c: "token_name ''baz = function() {}'' = takeWhile is_word (trim ''baz = function() {}'')"
    and d: "first_word ''baz = function() {}'' \<noteq> None" by blast+
  from 1 2 3 a b c d show ?thesis by blast
qed

subsection \<open>The dispatcher\<close>

lemma lower_table_values:
  "list_all (\<lambda>d. map_of lower_table d = None) (map snd lower_table)"
  by code_simp

lemma lower_char_idem: "lower_char (lower_char c) = lower_char c"
proof (cases "map_of lower_table c")
  case None
  then show ?thesis by (simp add: lower_char_def)
next
  case (Some d)
  then have "d \<in> set (map snd lower_table)"
    by (metis map_of_SomeD set_zip_rightD zip_map_fst_snd)
  with lower_table_values have "map_of lower_table d = None"
    by (auto simp: list_all_iff)
  with Some show ?thesis by (simp add: lower_char_def)
qed

lemma lower_fixed: "set s \<subseteq> range lower_char \<Longrightarrow> toLowerCase s = s"
  unfolding toLowerCase_def by (induction s) (auto simp: lower_char_idem)

lemma set_trim: "set (trim s) \<subseteq> set s"
  using trim_sublist[of s] by (rule set_mono_sublist)

lemma set_hd_split_on: "set (hd (split_on sep s)) \<subseteq> set s"
proof -
  have "hd (split_on sep s) \<in> set (split_on sep s)" using split_nonempty by simp
  then show ?thesis using split_on_sublist set_mono_sublist by blast
qed

lemma set_join: "set (join sep xs) \<subseteq> set sep \<union> \<Union> (set ` set xs)"
  by (induction sep xs rule: join.induct) auto

lemma set_toLowerCase: "set (toLowerCase s) \<subseteq> range lower_char"
  by (auto simp: toLowerCase_def)

text \<open>
  Whatever the input, \<open>baseCmd\<close> and \<open>query\<close> hold no upper-case letter: both are cut
  from the lower-cased input, and every argument of a command is cut from them.
\<close>

lemma baseCmd_lower_case: "toLowerCase (baseCmd_of command) = baseCmd_of command"
proof (rule lower_fixed)
  have "set (baseCmd_of command) \<subseteq> set (toLowerCase (trim command))"
    unfolding baseCmd_of_def using set_trim set_hd_split_on by (meson subset_trans)
  then show "set (baseCmd_of command) \<subseteq> range lower_char"
    using set_toLowerCase by blast
qed

lemma query_lower_case: "toLowerCase (query_of command) = query_of command"
proof (rule lower_fixed)
  let ?cmd = "toLowerCase (trim command)"
  have 1: "\<Union> (set ` set (tl (split_on CHR '':'' ?cmd))) \<subseteq> set ?cmd"
  proof
    fix x assume "x \<in> \<Union> (set ` set (tl (split_on CHR '':'' ?cmd)))"
    then obtain l where l: "l \<in> set (tl (split_on CHR '':'' ?cmd))" "x \<in> set l" by blast
    from l(1) have "l \<in> set (split_on CHR '':'' ?cmd)"
      by (cases "split_on CHR '':'' ?cmd") simp_all
    then have "sublist l ?cmd" by (rule split_on_sublist)
    then have "set l \<subseteq> set ?cmd" by (rule set_mono_sublist)
    with l(2) show "x \<in> set ?cmd" by blast
  qed
  have "lower_char CHR '':'' = CHR '':''" by code_simp
  then have 2: "set '':'' \<subseteq> range lower_char" by (metis empty_set empty_subsetI insert_subset list.simps(15) rangeI)
  have "set (query_of command) \<subseteq> set (join '':'' (tl (split_on CHR '':'' ?cmd)))"
    unfolding query_of_def by (rule set_trim)
  also have "\<dots> \<subseteq> set '':'' \<union> \<Union> (set ` set (tl (split_on CHR '':'' ?cmd)))"
    by (rule set_join)
  also have "\<dots> \<subseteq> range lower_char"
    using 1 2 set_toLowerCase[of "trim command"] by blast
  finally show "set (query_of command) \<subseteq> range lower_char" .
qed

lemma split_on_no_sep: "sep \<notin> set s \<Longrightarrow> split_on sep s = [s]"
  by (induction s) auto

lemma baseCmd_of_plain:
  "trim s = s \<Longrightarrow> toLowerCase s = s \<Longrightarrow> CHR '':'' \<notin> set s \<Longrightarrow> baseCmd_of s = s"
  by (simp add: baseCmd_of_def split_on_no_sep)








lemma switch_clear:
  "command_switch env svc ''@clear'' q = (Inr ''Chat history cleared'', clearHistory svc, [])"
  by (simp add: command_switch_def)

lemma switch_info:
  "command_switch env svc ''@info'' q = (Inr (''Current model: '' @ model svc), svc, [])"
  by (simp add: command_switch_def)

lemma handleCommand_clear:
  "baseCmd_of command = ''@clear'' \<Longrightarrow>
   handleCommand env svc command = (Inr ''Chat history cleared'', svc\<lparr>messageHistory := []\<rparr>, [])"
  by (simp add: handleCommand_def handleCommand_try_def switch_clear clearHistory_def addToHistory_def)

lemma handleCommand_info:
  "baseCmd_of command = ''@info'' \<Longrightarrow>
   handleCommand env svc command =
     (Inr (''Current model: '' @ model svc),
      svc\<lparr>messageHistory := messageHistory svc
              @ [\<lparr>role = User, content = command, timestamp = now env 0\<rparr>]\<rparr>, [])"
  by (simp add: handleCommand_def handleCommand_try_def switch_info addToHistory_def)

text \<open>
  C7, as amended. \<open>@clear\<close> returns the confirmation, leaves the history empty and
  calls nothing outside. \<open>@info\<close> after it returns the model name and leaves the model
  as it was, but the history then holds one turn, the user turn of \<open>@info\<close> itself,
  since every command is pushed on the history before it is dispatched.
\<close>

theorem clear_then_info:
  assumes "baseCmd_of clear = ''@clear''" and "baseCmd_of info = ''@info''"
  shows "fst (handleCommand env svc clear) = Inr ''Chat history cleared''
     \<and> messageHistory (fst (snd (handleCommand env svc clear))) = []
     \<and> snd (snd (handleCommand env svc clear)) = []
     \<and> fst (handleCommand env' (fst (snd (handleCommand env svc clear))) info)
         = Inr (''Current model: '' @ model svc)
     \<and> model (fst (snd (handleCommand env' (fst (snd (handleCommand env svc clear))) info)))
         = model svc
     \<and> messageHistory (fst (snd (handleCommand env' (fst (snd (handleCommand env svc clear))) info)))
         = [\<lparr>role = User, content = info, timestamp = now env' 0\<rparr>]
     \<and> snd (snd (handleCommand env' (fst (snd (handleCommand env svc clear))) info)) = []"
  using assms by (simp add: handleCommand_clear handleCommand_info)

text \<open>On the example service.\<close>

theorem clear_then_info_witness:
  "baseCmd_of ''@clear'' = ''@clear'' \<and> baseCmd_of ''@info'' = ''@info''
   \<and> model (fst (snd (handleCommand closed_workspace
        (fst (snd (handleCommand closed_workspace example_service ''@clear''))) ''@info'')))
       = model example_service
   \<and> messageHistory (fst (snd (handleCommand closed_workspace
        (fst (snd (handleCommand closed_workspace example_service ''@clear''))) ''@info'')))
       = [\<lparr>role = User, content = ''@info'', timestamp = now closed_workspace 0\<rparr>]"
proof -
  have c: "baseCmd_of ''@clear'' = ''@clear''" by code_simp
  have i: "baseCmd_of ''@info'' = ''@info''" by code_simp
  from clear_then_info[OF c i, of closed_workspace example_service closed_workspace] c i
  show ?thesis by blast
qed

text \<open>
  C7 as stated fails: after \<open>@clear\<close> and \<open>@info\<close> the history has length 1, not 0.
\<close>

theorem clear_then_info_counterexample:
  "length (messageHistory (fst (snd (handleCommand closed_workspace
        (fst (snd (handleCommand closed_workspace example_service ''@clear''))) ''@info'')))) = 1
   \<and> length (messageHistory (fst (snd (handleCommand closed_workspace
        (fst (snd (handleCommand closed_workspace example_service ''@clear''))) ''@info'')))) \<noteq> 0"
  by code_simp



lemma single_message_request_push [simp]:
  "single_message_request (addToHistory svc m) p = single_message_request svc p"
  by (simp add: single_message_request_def addToHistory_def)




text \<open>
  C4. The arguments are cut from the lower-cased input, not from the original: on
  \<open>@understand src/ollamaService.ts\<close>, in a workspace that holds that file,
  \<open>readFile\<close> is asked for \<open>src/ollamaservice.ts\<close> and the command fails, while
  reading the path as typed succeeds. For every input, \<open>baseCmd\<close> and \<open>query\<close> are in
  lower case (\<open>baseCmd_lower_case\<close>, \<open>query_lower_case\<close>).
\<close>

theorem arguments_lower_cased:
  "handleCommand open_workspace example_service ''@understand src/ollamaService.ts'' =
     (Inr ''Error executing command: Failed to read file src/ollamaservice.ts: Error: File not found'',
      addToHistory example_service
        \<lparr>role = User, content = ''@understand src/ollamaService.ts'',
         timestamp = now open_workspace 0\<rparr>,
      [OpenTextDocument ''/project'' ''src/ollamaservice.ts''])
   \<and> fst (readFile open_workspace ''src/ollamaService.ts'') = Inr ''export class OllamaService {}''"
  by code_simp

subsection \<open>Reachable states\<close>

lemma ctx_simps [simp]:
  "ctx (addToHistory svc m) = ctx svc"
  "ctx (clearHistory svc) = ctx svc"
  "ctx (setModel svc n) = ctx svc"
  by (simp_all add: ctx_def addToHistory_def clearHistory_def setModel_def)

lemma ctx_sendMessage: "ctx (fst (snd (sendMessage env svc message))) = ctx svc"
  by (simp add: sendMessage_def Let_def split: sum.splits)

lemma ctx_command_list: "ctx (fst (snd (command_list env svc))) = ctx svc"
  by (simp add: command_list_def split: prod.splits sum.splits)

lemma ctx_command_workspace: "ctx (fst (snd (command_workspace env svc q))) = ctx svc"
  by (simp add: command_workspace_def split: prod.splits sum.splits)

lemma ctx_command_model: "ctx (fst (snd (command_model env svc b))) = ctx svc"
  by (simp add: command_model_def Let_def split: prod.splits sum.splits)

lemma ctx_command_read: "ctx (fst (snd (command_read env svc b q))) = ctx svc"
  by (simp add: command_read_def Let_def split: prod.splits sum.splits)

lemma ctx_command_understand: "ctx (fst (snd (command_understand env svc b))) = ctx svc"
  by (simp add: command_understand_def Let_def split: prod.splits sum.splits)

lemma ctx_command_edit: "ctx (fst (snd (command_edit env svc b))) = ctx svc"
  by (simp add: command_edit_def split: prod.splits option.splits)

lemma ctx_command_default: "ctx (fst (snd (command_default env svc b q))) = ctx svc"
  by (simp add: command_default_def ctx_command_model ctx_command_read
      ctx_command_understand ctx_command_edit)

lemma ctx_command_switch: "ctx (fst (snd (command_switch env svc b q))) = ctx svc"
  by (simp add: command_switch_def ctx_command_list ctx_command_workspace ctx_command_default)

lemma ctx_handleCommand: "ctx (fst (snd (handleCommand env svc command))) = ctx svc"
proof -
  have "fst (snd (handleCommand env svc command)) = fst (snd (handleCommand_try env svc command))"
    by (simp add: handleCommand_def split: prod.splits sum.splits)
  then show ?thesis by (simp add: handleCommand_try_def ctx_command_switch)
qed

lemma ctx_apply_operation: "ctx (apply_operation env svc operation) = ctx svc"
  by (cases operation) (simp_all add: ctx_sendMessage ctx_handleCommand)

lemma reachable_ctx: "reachable svc \<Longrightarrow> ctx svc = ([], None)"
proof (induction rule: reachable.induct)
  case (constructed url m)
  show ?case by (simp add: ctx_def new_OllamaService_def)
next
  case (operated svc env operation)
  then show ?case by (simp add: ctx_apply_operation)
qed

lemma sendMessage_history:
  "trim message \<noteq> ''@'' \<Longrightarrow>
   take (Suc (length (messageHistory svc))) (messageHistory (fst (snd (sendMessage env svc message))))
     = messageHistory svc @ [\<lparr>role = User, content = contextMessage svc message, timestamp = now env 0\<rparr>]"
  by (simp add: sendMessage_def Let_def addToHistory_def split: sum.splits)

text \<open>
  C9. No operation of the service assigns \<open>workspaceContext\<close> or
  \<open>currentFileContext\<close>: in every reachable state the first is the empty string and the
  second is \<open>null\<close>, so \<open>sendMessage\<close> takes neither prefixing branch and the user turn
  it appends holds the message as given.
\<close>

theorem context_fields_never_set:
  assumes "reachable svc"
  shows "workspaceContext svc = [] \<and> currentFileContext svc = None
     \<and> contextMessage svc message = message
     \<and> (trim message \<noteq> ''@'' \<longrightarrow>
          take (Suc (length (messageHistory svc)))
            (messageHistory (fst (snd (sendMessage env svc message))))
          = messageHistory svc @ [\<lparr>role = User, content = message, timestamp = now env 0\<rparr>])"
proof -
  from reachable_ctx[OF assms]
  have w: "workspaceContext svc = []" and f: "currentFileContext svc = None"
    by (simp_all add: ctx_def)
  have c: "contextMessage svc message = message"
    by (simp add: contextMessage_def w f)
  from w f c sendMessage_history[of message svc env] show ?thesis by simp
qed

text \<open>A service after \<open>@help\<close> and its reply, then the message \<open>hello\<close>.\<close>

theorem context_fields_never_set_witness:
  "reachable (apply_operation closed_workspace
      (apply_operation closed_workspace example_service (HandleCommand ''@help''))
      (AddToHistory \<lparr>role = Assistant, content = ''help'', timestamp = ''t''\<rparr>))
   \<and> trim ''hello'' \<noteq> ''@''
   \<and> take 3 (messageHistory (fst (snd (sendMessage closed_workspace
        (apply_operation closed_workspace
          (apply_operation closed_workspace example_service (HandleCommand ''@help''))
          (AddToHistory \<lparr>role = Assistant, content = ''help'', timestamp = ''t''\<rparr>)) ''hello''))))
     = [\<lparr>role = User, content = ''@help'', timestamp = now closed_workspace 0\<rparr>,
        \<lparr>role = Assistant, content = ''help'', timestamp = ''t''\<rparr>,
        \<lparr>role = User, content = ''hello'', timestamp = now closed_workspace 0\<rparr>]"
proof -
  define s where "s = apply_operation closed_workspace
      (apply_operation closed_workspace example_service (HandleCommand ''@help''))
      (AddToHistory \<lparr>role = Assistant, content = ''help'', timestamp = ''t''\<rparr>)"
  have r: "reachable s"
    unfolding s_def example_service_def by (intro reachable.intros)
  have t: "trim ''hello'' \<noteq> ''@''" by code_simp
  have h: "messageHistory s = [\<lparr>role = User, content = ''@help'', timestamp = now closed_workspace 0\<rparr>,
        \<lparr>role = Assistant, content = ''help'', timestamp = ''t''\<rparr>]"
    unfolding s_def by code_simp
  from context_fields_never_set[OF r, of "''hello''" closed_workspace] t
  have "take (Suc (length (messageHistory s)))
            (messageHistory (fst (snd (sendMessage closed_workspace s ''hello''))))
          = messageHistory s @ [\<lparr>role = User, content = ''hello'', timestamp = now closed_workspace 0\<rparr>]"
    by blast
  then have "take 3 (messageHistory (fst (snd (sendMessage closed_workspace s ''hello''))))
     = [\<lparr>role = User, content = ''@help'', timestamp = now closed_workspace 0\<rparr>,
        \<lparr>role = Assistant, content = ''help'', timestamp = ''t''\<rparr>,
        \<lparr>role = User, content = ''hello'', timestamp = now closed_workspace 0\<rparr>]"
    by (simp add: h eval_nat_numeral)
  with r t show ?thesis unfolding s_def by blast
qed

subsection \<open>Outgoing requests\<close>




































end
